theory Spec2Isabelle
  imports Main "HOL-Library.Word"
begin

unbundle bit_operations_syntax

chapter \<open>The HID bus, the I2C acquisition engine and the USB transfer bridge\<close>

text \<open>
  A shallow embedding of \<^verbatim>\<open>hidbus.c\<close>, \<^verbatim>\<open>iichid.c\<close> and \<^verbatim>\<open>usbhid.c\<close>.
  Kernel services the drivers call (the device tree, the report-descriptor parser, the
  I2C and USB stacks, the interrupt and callout subsystems) are not part of the
  repository: each is a parameter that says what the service answers, and each call
  the driver makes to it is recorded in a list of calls.
\<close>

section \<open>Machine types and error numbers\<close>

type_synonym u8 = "8 word"
type_synonym u16 = "16 word"
type_synonym u32 = "32 word"

text \<open>The error numbers of \<^verbatim>\<open>sys/errno.h\<close> that the drivers return.\<close>

definition EIO :: int where "EIO = 5"
definition EINVAL :: int where "EINVAL = 22"
definition ENOBUFS :: int where "ENOBUFS = 55"
definition ETIMEDOUT :: int where "ETIMEDOUT = 60"

section \<open>hidbus.c: the bus registry\<close>

text \<open>
  A \<^verbatim>\<open>device_t\<close> is a handle; \<^verbatim>\<open>NULL\<close> is \<open>None\<close> of an option. An interrupt
  handler (\<^verbatim>\<open>hid_intr_t *\<close>) is identified by a number, \<^verbatim>\<open>NULL\<close> again \<open>None\<close>.
  \<^verbatim>\<open>struct hidbus_ivar\<close> is declared in \<^verbatim>\<open>hidbus.h\<close>; the record has the fields
  that \<^verbatim>\<open>hidbus.c\<close> reads and writes. \<^verbatim>\<open>malloc\<close> with \<^verbatim>\<open>M_ZERO\<close> gives index 0,
  usage 0, a clear open flag and no handler.
\<close>

type_synonym device_t = nat
type_synonym hid_intr_t = nat

record hidbus_ivar =
  child :: device_t
  index :: u8
  usage :: u32
  "open" :: bool
  intr :: "hid_intr_t option"

record hidbus_softc =
  tlcs :: "hidbus_ivar list"

text \<open>The methods of \<^verbatim>\<open>hid_if.m\<close> that the bus calls on its parent transport.\<close>

datatype hid_if_call = HID_INTR_SETUP | HID_INTR_UNSETUP | HID_INTR_START | HID_INTR_STOP

text \<open>
  The parser of report descriptors is outside the repository. \<open>hi_items\<close> below is the
  sequence of items that successive calls of \<^verbatim>\<open>hid_get_item\<close> return for the parent's
  descriptor, parsed for input items.
\<close>

datatype hid_kind = hid_input | hid_output | hid_feature | hid_collection | hid_endcollection

record hid_item =
  hi_kind :: hid_kind
  hi_collevel :: int
  hi_usage :: u32


definition new_tlc :: "device_t \<Rightarrow> hidbus_ivar" where
  "new_tlc c = \<lparr>child = c, index = 0, usage = 0, open = False, intr = None\<rparr>"













definition tlc_record :: "nat \<Rightarrow> nat \<times> hid_item \<Rightarrow> hidbus_ivar" where
  "tlc_record i p = \<lparr>child = fst p, index = of_nat i, usage = hi_usage (snd p),
                      open = False, intr = None\<rparr>"




text \<open>
  \<^verbatim>\<open>hidbus_intr\<close>. A handler call is recorded as (handler, child, buffer, length); the
  buffer is the pointer passed. \<^verbatim>\<open>KASSERT\<close> on an open record without handler
  panics: the loop stops there, and the result says so.
\<close>

type_synonym intr_call = "hid_intr_t \<times> device_t \<times> nat \<times> u16"

fun hidbus_intr_loop :: "hidbus_ivar list \<Rightarrow> nat \<Rightarrow> u16 \<Rightarrow> intr_call list \<times> bool" where
  "hidbus_intr_loop [] b n = ([], False)"
| "hidbus_intr_loop (t # ts) b n =
     (if open t then
        (case intr t of
           None \<Rightarrow> ([], True)
         | Some h \<Rightarrow> (case hidbus_intr_loop ts b n of (cs, p) \<Rightarrow> ((h, child t, b, n) # cs, p)))
      else hidbus_intr_loop ts b n)"

definition hidbus_intr :: "hidbus_softc \<Rightarrow> nat \<Rightarrow> u16 \<Rightarrow> intr_call list \<times> bool" where
  "hidbus_intr sc b n = hidbus_intr_loop (tlcs sc) b n"

text \<open>
  \<^verbatim>\<open>hid_start\<close> and \<^verbatim>\<open>hid_stop\<close>. The loop of \<^verbatim>\<open>hid_start\<close> reads a record's flag
  before it sets it, the loop of \<^verbatim>\<open>hid_stop\<close> after it cleared it. The parent's
  \<^verbatim>\<open>HID_INTR_START\<close> and \<^verbatim>\<open>HID_INTR_STOP\<close> return what the transport returns
  (\<open>start_ret\<close>, \<open>stop_ret\<close>; \<^verbatim>\<open>usbhid_intr_start\<close> and \<^verbatim>\<open>usbhid_intr_stop\<close> return 0).
\<close>

fun hid_start_loop :: "device_t \<Rightarrow> hidbus_ivar list \<Rightarrow> bool \<Rightarrow> bool \<times> hidbus_ivar list" where
  "hid_start_loop c [] opn = (opn, [])"
| "hid_start_loop c (t # ts) opn =
     (let opn' = (opn \<or> open t);
          t' = (if child t = c then t\<lparr>open := True\<rparr> else t)
      in case hid_start_loop c ts opn' of (r, ts') \<Rightarrow> (r, t' # ts'))"

definition hid_start :: "int \<Rightarrow> device_t \<Rightarrow> hidbus_softc \<Rightarrow> int \<times> hidbus_softc \<times> hid_if_call list" where
  "hid_start start_ret c sc =
     (case hid_start_loop c (tlcs sc) False of
        (opn, ts') \<Rightarrow>
          if opn then (0, sc\<lparr>tlcs := ts'\<rparr>, [])
          else (start_ret, sc\<lparr>tlcs := ts'\<rparr>, [HID_INTR_START]))"

fun hid_stop_loop :: "device_t \<Rightarrow> hidbus_ivar list \<Rightarrow> bool \<Rightarrow> bool \<times> hidbus_ivar list" where
  "hid_stop_loop c [] opn = (opn, [])"
| "hid_stop_loop c (t # ts) opn =
     (let t' = (if child t = c then t\<lparr>open := False\<rparr> else t);
          opn' = (opn \<or> open t')
      in case hid_stop_loop c ts opn' of (r, ts') \<Rightarrow> (r, t' # ts'))"

definition hid_stop :: "int \<Rightarrow> device_t \<Rightarrow> hidbus_softc \<Rightarrow> int \<times> hidbus_softc \<times> hid_if_call list" where
  "hid_stop stop_ret c sc =
     (case hid_stop_loop c (tlcs sc) False of
        (opn, ts') \<Rightarrow>
          if opn then (0, sc\<lparr>tlcs := ts'\<rparr>, [])
          else (stop_ret, sc\<lparr>tlcs := ts'\<rparr>, [HID_INTR_STOP]))"

text \<open>
  The aggregate "some subscriber is open" of the specification, derived from the records.
\<close>

definition any_open :: "hidbus_softc \<Rightarrow> bool" where
  "any_open sc = list_ex open (tlcs sc)"

text \<open>
  What a subscriber receives from a dispatch of buffer \<open>b\<close> and length \<open>n\<close>: one call of
  its handler, if it has one.
\<close>

definition delivery :: "nat \<Rightarrow> u16 \<Rightarrow> hidbus_ivar \<Rightarrow> intr_call list" where
  "delivery b n t = (case intr t of None \<Rightarrow> [] | Some h \<Rightarrow> [(h, child t, b, n)])"

definition has_handler :: "hidbus_ivar \<Rightarrow> bool" where
  "has_handler t = (intr t \<noteq> None)"






text \<open>
  A sequence of open and close calls by the children of a bus. \<open>hid_run\<close> performs the
  calls in order and gives, for each call, the call, the softc before it, the softc after
  it and the calls it made to the parent transport.
\<close>

datatype hid_call = Hid_start device_t | Hid_stop device_t

fun hid_target :: "hid_call \<Rightarrow> device_t" where
  "hid_target (Hid_start c) = c"
| "hid_target (Hid_stop c) = c"

definition hid_call_step :: "int \<Rightarrow> int \<Rightarrow> hid_call \<Rightarrow> hidbus_softc \<Rightarrow> int \<times> hidbus_softc \<times> hid_if_call list" where
  "hid_call_step start_ret stop_ret x sc =
     (case x of Hid_start c \<Rightarrow> hid_start start_ret c sc | Hid_stop c \<Rightarrow> hid_stop stop_ret c sc)"

fun hid_run :: "int \<Rightarrow> int \<Rightarrow> hid_call list \<Rightarrow> hidbus_softc \<Rightarrow>
    (hid_call \<times> hidbus_softc \<times> hidbus_softc \<times> hid_if_call list) list" where
  "hid_run start_ret stop_ret [] sc = []"
| "hid_run start_ret stop_ret (x # xs) sc =
     (case hid_call_step start_ret stop_ret x sc of
        (r, sc', calls) \<Rightarrow> (x, sc, sc', calls) # hid_run start_ret stop_ret xs sc')"

section \<open>iichid.c: the GET_REPORT exchange\<close>


















section \<open>iichid.c: interrupt and sampling modes\<close>

text \<open>
  The fields of \<^verbatim>\<open>struct iichid\<close> that select the event source. The callout and the
  interrupt handler live in the kernel: \<open>periodic_callout\<close> is \<open>Some ticks\<close> while the
  callout is scheduled (\<^verbatim>\<open>callout_reset\<close>) and \<open>None\<close> once stopped;
  \<open>intr_installed\<close> says that \<^verbatim>\<open>bus_setup_intr\<close> installed \<^verbatim>\<open>iichid_intr\<close> and
  \<^verbatim>\<open>bus_teardown_intr\<close> has not removed it.
\<close>

record iichid =
  sampling_rate :: int
  callout_setup :: bool
  periodic_callout :: "int option"
  irq_rid :: int
  irq_res :: "nat option"
  irq_cookie :: "nat option"
  intr_installed :: bool

text \<open>
  What the kernel answers to \<^verbatim>\<open>iichid_setup_interrupt\<close>: the resource that
  \<^verbatim>\<open>bus_alloc_resource_any\<close> returns (\<open>None\<close> for \<^verbatim>\<open>NULL\<close>), the return value of
  \<^verbatim>\<open>bus_setup_intr\<close> and the cookie it stores on success; \<open>hz\<close> is the clock rate.
\<close>

record irq_env =
  alloc_resource :: "nat option"
  setup_intr_ret :: int
  setup_intr_cookie :: nat
  hz :: int

definition iichid_setup_callout :: "iichid \<Rightarrow> int \<times> iichid" where
  "iichid_setup_callout sc =
     (if sampling_rate sc < 0 then (EINVAL, sc)
      else (0, sc\<lparr>callout_setup := True\<rparr>))"

definition iichid_reset_callout :: "irq_env \<Rightarrow> iichid \<Rightarrow> int \<times> iichid" where
  "iichid_reset_callout env sc =
     (if sampling_rate sc \<le> 0 then (EINVAL, sc)
      else if callout_setup sc
        then (0, sc\<lparr>periodic_callout := Some (hz env div sampling_rate sc)\<rparr>)
        else (EINVAL, sc))"

definition iichid_teardown_callout :: "iichid \<Rightarrow> iichid" where
  "iichid_teardown_callout sc = sc\<lparr>periodic_callout := None, callout_setup := False\<rparr>"

definition iichid_setup_interrupt :: "irq_env \<Rightarrow> iichid \<Rightarrow> int \<times> iichid" where
  "iichid_setup_interrupt env sc0 =
     (let sc = sc0\<lparr>irq_rid := 0, irq_cookie := None, irq_res := alloc_resource env\<rparr>
      in if irq_res sc \<noteq> None then
           (if setup_intr_ret env \<noteq> 0 then (setup_intr_ret env, sc)
            else (0, sc\<lparr>irq_cookie := Some (setup_intr_cookie env), intr_installed := True\<rparr>))
         else (0, sc))"

definition iichid_teardown_interrupt :: "iichid \<Rightarrow> iichid" where
  "iichid_teardown_interrupt sc0 =
     (let sc = (if irq_cookie sc0 \<noteq> None then sc0\<lparr>intr_installed := False\<rparr> else sc0)
      in sc\<lparr>irq_rid := 0, irq_cookie := None, irq_res := None\<rparr>)"

text \<open>
  A request to the sysctl node: \<^verbatim>\<open>sysctl_handle_int\<close> returns \<open>req_err\<close>, and stores
  the new value when the request carries one (\<open>newptr\<close>) and no error occurred.
\<close>

record sysctl_req =
  req_err :: int
  newptr :: "int option"

definition sysctl_handle_int :: "int \<Rightarrow> sysctl_req \<Rightarrow> int \<times> int" where
  "sysctl_handle_int v req =
     (if req_err req \<noteq> 0 then (req_err req, v)
      else (case newptr req of None \<Rightarrow> (0, v) | Some x \<Rightarrow> (0, x)))"

definition iichid_sysctl_sampling_rate_handler :: "irq_env \<Rightarrow> sysctl_req \<Rightarrow> iichid \<Rightarrow> int \<times> iichid" where
  "iichid_sysctl_sampling_rate_handler env req sc0 =
     (let oldval = sampling_rate sc0;
          (err, v) = sysctl_handle_int (sampling_rate sc0) req
      in if err \<noteq> 0 \<or> newptr req = None \<or> v = sampling_rate sc0 then (err, sc0)
         else
           (let sc1 = sc0\<lparr>sampling_rate := v\<rparr>;
                sc2 = (if oldval < 0 \<and> v \<ge> 0
                         then snd (iichid_setup_callout (iichid_teardown_interrupt sc1))
                       else if oldval \<ge> 0 \<and> v < 0
                         then snd (iichid_setup_interrupt env (iichid_teardown_callout sc1))
                       else sc1);
                sc3 = (if v > 0 then snd (iichid_reset_callout env sc2) else sc2)
            in (0, sc3)))"

text \<open>The two event sources of the engine.\<close>

definition timer_armed :: "iichid \<Rightarrow> bool" where
  "timer_armed sc = (periodic_callout sc \<noteq> None)"

definition active_sources :: "iichid \<Rightarrow> nat" where
  "active_sources sc = (if intr_installed sc then 1 else 0) + (if timer_armed sc then 1 else 0)"

section \<open>usbhid.c: the synchronous transfer bridge\<close>

text \<open>
  \<^verbatim>\<open>struct usb_device_request\<close>; a 16-bit field is its two bytes, low byte first.
\<close>

record usb_device_request =
  bmRequestType :: u8
  bRequest :: u8
  wValue :: "u8 \<times> u8"
  wIndex :: "u8 \<times> u8"
  wLength :: "u8 \<times> u8"

definition UT_READ_CLASS_INTERFACE :: u8 where "UT_READ_CLASS_INTERFACE = 0xA1"
definition UR_GET_REPORT :: u8 where "UR_GET_REPORT = 0x01"

definition USETW :: "u16 \<Rightarrow> u8 \<times> u8" where
  "USETW v = (ucast v, ucast (drop_bit 8 v))"

definition USETW2 :: "u8 \<Rightarrow> u8 \<Rightarrow> u8 \<times> u8" where
  "USETW2 b1 b0 = (b0, b1)"

text \<open>
  \<^verbatim>\<open>struct usbhid_xfer_ctx\<close>. The request is a pointer (\<open>None\<close> for \<^verbatim>\<open>NULL\<close>) and
  the buffer an address.
\<close>

record usbhid_xfer_ctx =
  req :: "usb_device_request option"
  buf :: nat
  len :: u16
  error :: int
  waiters :: int
  influx :: bool

record usbhid_softc =
  sc_iface_no :: u8
  sc_tr :: usbhid_xfer_ctx

datatype usbhid_xfer_idx =
  USBHID_INTR_DT_WR | USBHID_INTR_DT_RD | USBHID_CTRL_DT_WR | USBHID_CTRL_DT_RD

datatype usb_state = USB_ST_SETUP | USB_ST_TRANSFERRED | USB_ST_ERROR

text \<open>
  \<^verbatim>\<open>usb_error_t\<close> belongs to the USB stack; the callbacks compare it with
  \<^verbatim>\<open>USB_ERR_CANCELLED\<close> only.
\<close>

datatype usb_error_t =
  USB_ERR_NORMAL_COMPLETION | USB_ERR_CANCELLED | USB_ERR_IOERROR | USB_ERR_TIMEOUT | USB_ERR_STALLED

text \<open>What a callback asks of the USB stack and of the scheduler, in order.\<close>

datatype xfer_action =
    Usbd_copy_in nat nat nat
  | Usbd_copy_in_req nat "usb_device_request option"
  | Usbd_copy_out nat nat nat
  | Usbd_xfer_set_frame_len nat nat
  | Usbd_xfer_set_frames nat
  | Usbd_transfer_submit
  | Usbd_xfer_set_stall
  | Intr_handler nat
  | Wakeup
  | Wakeup_one

text \<open>
  One invocation of a callback by the USB stack: the state of the transfer
  (\<^verbatim>\<open>USB_GET_STATE\<close>), the error, and the number of bytes transferred
  (\<^verbatim>\<open>usbd_xfer_status\<close>).
\<close>

record usb_event =
  ev_state :: usb_state
  ev_error :: usb_error_t
  ev_actlen :: nat

definition sizeof_req :: nat where "sizeof_req = 8"

definition tr_exit :: "bool \<Rightarrow> xfer_action list" where
  "tr_exit pm = (if \<not> pm then [Wakeup] else [])"

definition usbhid_intr_wr_callback ::
  "nat \<Rightarrow> bool \<Rightarrow> usb_event \<Rightarrow> usbhid_xfer_ctx \<Rightarrow> usbhid_xfer_ctx \<times> xfer_action list" where
  "usbhid_intr_wr_callback max_len pm ev ctx =
     (let tr_setup = [Usbd_copy_in 0 (buf ctx) (unat (len ctx)),
                      Usbd_xfer_set_frame_len 0 (unat (len ctx)),
                      Usbd_transfer_submit]
      in case ev_state ev of
           USB_ST_SETUP \<Rightarrow>
             if unat (len ctx) > max_len then (ctx\<lparr>error := ENOBUFS\<rparr>, tr_exit pm)
             else (ctx, tr_setup)
         | USB_ST_TRANSFERRED \<Rightarrow> (ctx\<lparr>error := 0\<rparr>, tr_exit pm)
         | USB_ST_ERROR \<Rightarrow>
             if ev_error ev \<noteq> USB_ERR_CANCELLED then (ctx, Usbd_xfer_set_stall # tr_setup)
             else (ctx\<lparr>error := EIO\<rparr>, tr_exit pm))"

definition usbhid_intr_rd_callback :: "nat \<Rightarrow> usb_event \<Rightarrow> xfer_action list" where
  "usbhid_intr_rd_callback max_len ev =
     (let re_submit = [Usbd_xfer_set_frame_len 0 max_len, Usbd_transfer_submit]
      in case ev_state ev of
           USB_ST_TRANSFERRED \<Rightarrow>
             (let actlen = (if ev_actlen ev > max_len then max_len else ev_actlen ev)
              in [Usbd_copy_out 0 0 actlen, Intr_handler actlen] @ re_submit)
         | USB_ST_SETUP \<Rightarrow> re_submit
         | USB_ST_ERROR \<Rightarrow>
             if ev_error ev \<noteq> USB_ERR_CANCELLED then Usbd_xfer_set_stall # re_submit else [])"

definition usbhid_ctrl_wr_callback ::
  "nat \<Rightarrow> bool \<Rightarrow> usb_event \<Rightarrow> usbhid_xfer_ctx \<Rightarrow> usbhid_xfer_ctx \<times> xfer_action list" where
  "usbhid_ctrl_wr_callback max_len pm ev ctx =
     (case ev_state ev of
        USB_ST_SETUP \<Rightarrow>
          if unat (len ctx) > max_len then (ctx\<lparr>error := ENOBUFS\<rparr>, tr_exit pm)
          else (ctx,
                (if unat (len ctx) > 0
                   then [Usbd_copy_in 1 (buf ctx) (unat (len ctx)),
                         Usbd_xfer_set_frame_len 1 (unat (len ctx))]
                   else []) @
                [Usbd_copy_in_req 0 (req ctx),
                 Usbd_xfer_set_frame_len 0 sizeof_req,
                 Usbd_xfer_set_frames (if unat (len ctx) > 0 then 2 else 1),
                 Usbd_transfer_submit])
      | USB_ST_TRANSFERRED \<Rightarrow> (ctx\<lparr>error := 0\<rparr>, tr_exit pm)
      | USB_ST_ERROR \<Rightarrow> (ctx\<lparr>error := EIO\<rparr>, tr_exit pm))"

definition usbhid_ctrl_rd_callback ::
  "nat \<Rightarrow> bool \<Rightarrow> usb_event \<Rightarrow> usbhid_xfer_ctx \<Rightarrow> usbhid_xfer_ctx \<times> xfer_action list" where
  "usbhid_ctrl_rd_callback max_len pm ev ctx =
     (case ev_state ev of
        USB_ST_SETUP \<Rightarrow>
          if unat (len ctx) > max_len then (ctx\<lparr>error := ENOBUFS\<rparr>, tr_exit pm)
          else (ctx,
                [Usbd_copy_in_req 0 (req ctx),
                 Usbd_xfer_set_frame_len 0 sizeof_req,
                 Usbd_xfer_set_frame_len 1 (unat (len ctx)),
                 Usbd_xfer_set_frames (if unat (len ctx) \<noteq> 0 then 2 else 1),
                 Usbd_transfer_submit])
      | USB_ST_TRANSFERRED \<Rightarrow>
          (ctx\<lparr>error := 0\<rparr>, Usbd_copy_out sizeof_req (buf ctx) (unat (len ctx)) # tr_exit pm)
      | USB_ST_ERROR \<Rightarrow> (ctx\<lparr>error := EIO\<rparr>, tr_exit pm))"

text \<open>
  What the USB stack and the kernel answer during one exchange: whether
  \<^verbatim>\<open>hid_in_polling_mode()\<close> holds (the scheduler does not restart during the call, so
  its tests in one exchange agree), the maximal length of each transfer, and the
  callback invocations that the stack makes inside \<^verbatim>\<open>usbd_transfer_start\<close>, inside the
  \<open>k\<close>-th \<^verbatim>\<open>usbd_transfer_poll\<close>, while the caller sleeps in \<^verbatim>\<open>msleep_sbt\<close>, and
  inside \<^verbatim>\<open>usbd_transfer_stop\<close>.
\<close>

record usb_stack =
  polling :: bool
  xfer_max_len :: "usbhid_xfer_idx \<Rightarrow> nat"
  on_start :: "usb_event list"
  on_poll :: "nat \<Rightarrow> usb_event list"
  on_sleep :: "usb_event list"
  on_stop :: "usb_event list"

text \<open>A stack whose transfers all take 64 bytes, and a poll that delivers nothing.\<close>

definition xfer_max_len_64 :: "usbhid_xfer_idx \<Rightarrow> nat" where
  "xfer_max_len_64 idx = 64"

definition no_events :: "nat \<Rightarrow> usb_event list" where
  "no_events k = []"

text \<open>
  The callback of \<^verbatim>\<open>usbhid_config\<close> for a transfer. The interrupt-read callback has
  the softc, not the transfer context, as its argument and leaves the context alone.
\<close>

definition usbhid_callback ::
  "usb_stack \<Rightarrow> usbhid_xfer_idx \<Rightarrow> usb_event \<Rightarrow> usbhid_xfer_ctx \<Rightarrow> usbhid_xfer_ctx \<times> xfer_action list" where
  "usbhid_callback st idx ev ctx =
     (case idx of
        USBHID_INTR_DT_WR \<Rightarrow> usbhid_intr_wr_callback (xfer_max_len st idx) (polling st) ev ctx
      | USBHID_INTR_DT_RD \<Rightarrow> (ctx, usbhid_intr_rd_callback (xfer_max_len st idx) ev)
      | USBHID_CTRL_DT_WR \<Rightarrow> usbhid_ctrl_wr_callback (xfer_max_len st idx) (polling st) ev ctx
      | USBHID_CTRL_DT_RD \<Rightarrow> usbhid_ctrl_rd_callback (xfer_max_len st idx) (polling st) ev ctx)"

fun run_callbacks ::
  "(usb_event \<Rightarrow> usbhid_xfer_ctx \<Rightarrow> usbhid_xfer_ctx \<times> xfer_action list) \<Rightarrow> usb_event list \<Rightarrow>
   usbhid_xfer_ctx \<Rightarrow> usbhid_xfer_ctx \<times> xfer_action list" where
  "run_callbacks cb [] ctx = (ctx, [])"
| "run_callbacks cb (e # es) ctx =
     (case cb e ctx of
        (ctx1, a1) \<Rightarrow> (case run_callbacks cb es ctx1 of (ctx2, a2) \<Rightarrow> (ctx2, a1 @ a2)))"

definition USB_DEFAULT_TIMEOUT :: nat where "USB_DEFAULT_TIMEOUT = 5000"

text \<open>
  The polling loop: \<open>t\<close> is \<^verbatim>\<open>timeout\<close> and \<open>k\<close> counts the polls made.
\<close>

fun usbhid_poll_loop ::
  "(usb_event \<Rightarrow> usbhid_xfer_ctx \<Rightarrow> usbhid_xfer_ctx \<times> xfer_action list) \<Rightarrow> (nat \<Rightarrow> usb_event list) \<Rightarrow>
   nat \<Rightarrow> nat \<Rightarrow> usbhid_xfer_ctx \<Rightarrow> usbhid_xfer_ctx \<times> xfer_action list" where
  "usbhid_poll_loop cb evs 0 k ctx = (ctx, [])"
| "usbhid_poll_loop cb evs (Suc t) k ctx =
     (if error ctx = ETIMEDOUT then
        (case run_callbacks cb (evs k) ctx of
           (ctx1, a1) \<Rightarrow>
             (case usbhid_poll_loop cb evs t (Suc k) ctx1 of (ctx2, a2) \<Rightarrow> (ctx2, a1 @ a2)))
      else (ctx, []))"

text \<open>
  \<^verbatim>\<open>usbhid_sync_xfer\<close>. Outside polling mode a caller that finds the context in flux
  sleeps until another thread releases it; the model is sequential and gives \<open>None\<close>
  for that call. Otherwise the waiter count is incremented and decremented again
  before the exchange starts.
\<close>

definition usbhid_sync_xfer ::
  "usb_stack \<Rightarrow> usbhid_softc \<Rightarrow> usbhid_xfer_idx \<Rightarrow> usb_device_request option \<Rightarrow> nat \<Rightarrow> u16 \<Rightarrow>
   (int \<times> usbhid_softc \<times> xfer_action list) option" where
  "usbhid_sync_xfer st sc idx rq b n =
     (if \<not> polling st \<and> influx (sc_tr sc) then None
      else
        (let save = sc_tr sc;
             tr0 = (if polling st then sc_tr sc
                    else (sc_tr sc)\<lparr>waiters := waiters (sc_tr sc) + 1 - 1, influx := True\<rparr>);
             tr1 = tr0\<lparr>buf := b, len := n, req := rq, error := ETIMEDOUT\<rparr>;
             cb = usbhid_callback st idx;
             (tr2, a2) = run_callbacks cb (on_start st) tr1;
             (tr3, a3) = (if polling st then usbhid_poll_loop cb (on_poll st) USB_DEFAULT_TIMEOUT 0 tr2
                          else run_callbacks cb (on_sleep st) tr2);
             (tr4, a4) = run_callbacks cb (on_stop st) tr3;
             err = error tr4;
             tr5 = (if polling st then save else tr4\<lparr>influx := False\<rparr>);
             a5 = (if \<not> polling st \<and> waiters tr4 \<noteq> 0 then [Wakeup_one] else [])
         in Some (err, sc\<lparr>sc_tr := tr5\<rparr>, a2 @ a3 @ a4 @ a5)))"

text \<open>
  \<^verbatim>\<open>usbhid_get_report\<close>. The out-parameter \<^verbatim>\<open>actlen\<close> is \<open>None\<close> for a \<^verbatim>\<open>NULL\<close>
  pointer and \<open>Some v\<close> for a pointer to a variable holding \<open>v\<close>; the result has the
  variable's value after the call.
\<close>

definition usbhid_get_report ::
  "usb_stack \<Rightarrow> usbhid_softc \<Rightarrow> nat \<Rightarrow> u16 \<Rightarrow> u16 option \<Rightarrow> u8 \<Rightarrow> u8 \<Rightarrow>
   (int \<times> u16 option \<times> usbhid_softc \<times> xfer_action list) option" where
  "usbhid_get_report st sc b maxlen actlen type rid =
     (let rq = \<lparr>bmRequestType = UT_READ_CLASS_INTERFACE, bRequest = UR_GET_REPORT,
                wValue = USETW2 type rid, wIndex = (sc_iface_no sc, 0), wLength = USETW maxlen\<rparr>
      in case usbhid_sync_xfer st sc USBHID_CTRL_DT_RD (Some rq) b maxlen of
           None \<Rightarrow> None
         | Some (err, sc', acts) \<Rightarrow>
             Some (err, (if err = 0 \<and> actlen \<noteq> None then Some maxlen else actlen), sc', acts))"

text \<open>
  The same stack, with the number of bytes transferred set to \<open>a\<close> in every callback
  invocation.
\<close>

definition with_actlen :: "nat \<Rightarrow> usb_stack \<Rightarrow> usb_stack" where
  "with_actlen a st =
     st\<lparr>on_start := map (\<lambda>e. e\<lparr>ev_actlen := a\<rparr>) (on_start st),
        on_poll := (\<lambda>k. map (\<lambda>e. e\<lparr>ev_actlen := a\<rparr>) (on_poll st k)),
        on_sleep := map (\<lambda>e. e\<lparr>ev_actlen := a\<rparr>) (on_sleep st),
        on_stop := map (\<lambda>e. e\<lparr>ev_actlen := a\<rparr>) (on_stop st)\<rparr>"

text \<open>A poll sequence that completes the transfer in the first poll.\<close>

definition done_at_first_poll :: "nat \<Rightarrow> usb_event list" where
  "done_at_first_poll k =
     (if k = 0 then [\<lparr>ev_state = USB_ST_TRANSFERRED, ev_error = USB_ERR_NORMAL_COMPLETION,
                      ev_actlen = 3\<rparr>]
      else [])"

chapter \<open>Properties\<close>

section \<open>The GET_REPORT command frame\<close>









section \<open>The GET_REPORT response\<close>















section \<open>Enumeration of top-level collections at attach\<close>









lemma index_records:
  "map index (map2 tlc_record [0 ..< length xs] xs) = map of_nat [0 ..< length xs]"
  by (rule nth_equalityI) (simp_all add: tlc_record_def)









section \<open>Reference-counted start and stop of the interrupt pipe\<close>

lemma hid_start_loop_eq:
  "hid_start_loop c ts opn =
     (opn \<or> list_ex open ts, map (\<lambda>t. if child t = c then t\<lparr>open := True\<rparr> else t) ts)"
  by (induction ts arbitrary: opn) (auto simp: Let_def)

lemma hid_stop_loop_eq:
  "hid_stop_loop c ts opn =
     (opn \<or> list_ex open (map (\<lambda>t. if child t = c then t\<lparr>open := False\<rparr> else t) ts),
      map (\<lambda>t. if child t = c then t\<lparr>open := False\<rparr> else t) ts)"
  by (induction ts arbitrary: opn) (auto simp: Let_def)

lemma hid_start_eq:
  "hid_start sr c sc =
     (if any_open sc then 0 else sr,
      sc\<lparr>tlcs := map (\<lambda>t. if child t = c then t\<lparr>open := True\<rparr> else t) (tlcs sc)\<rparr>,
      if any_open sc then [] else [HID_INTR_START])"
  by (simp add: hid_start_def hid_start_loop_eq any_open_def)

lemma hid_stop_eq:
  "hid_stop pr c sc =
     (if any_open (sc\<lparr>tlcs := map (\<lambda>t. if child t = c then t\<lparr>open := False\<rparr> else t) (tlcs sc)\<rparr>)
        then 0 else pr,
      sc\<lparr>tlcs := map (\<lambda>t. if child t = c then t\<lparr>open := False\<rparr> else t) (tlcs sc)\<rparr>,
      if any_open (sc\<lparr>tlcs := map (\<lambda>t. if child t = c then t\<lparr>open := False\<rparr> else t) (tlcs sc)\<rparr>)
        then [] else [HID_INTR_STOP])"
  by (simp add: hid_stop_def hid_stop_loop_eq any_open_def)

lemma list_ex_open_after_start:
  "c \<in> child ` set ts \<Longrightarrow>
   list_ex open (map (\<lambda>t. if child t = c then t\<lparr>open := True\<rparr> else t) ts)"
  by (induction ts) auto

lemma any_open_after_start:
  assumes "c \<in> child ` set (tlcs sc)"
  shows "any_open (sc\<lparr>tlcs := map (\<lambda>t. if child t = c then t\<lparr>open := True\<rparr> else t) (tlcs sc)\<rparr>)"
  using assms by (simp add: any_open_def list_ex_open_after_start)

lemma map_child_open_update:
  "map child (map (\<lambda>t. if child t = c then t\<lparr>open := b\<rparr> else t) ts) = map child ts"
  by (induction ts) auto

lemma children_step:
  "map child (tlcs (fst (snd (hid_call_step sr pr x sc)))) = map child (tlcs sc)"
  by (cases x) (simp_all add: hid_call_step_def hid_start_eq hid_stop_eq map_child_open_update)

text \<open>
  Claim C2, as amended. In every sequence of \<^verbatim>\<open>hid_start\<close> and \<^verbatim>\<open>hid_stop\<close> calls by
  the subscribers of a bus, started in any state: \<^verbatim>\<open>HID_INTR_START\<close> is invoked exactly
  by those opens that take the bus from no subscriber open to some subscriber open, and
  by no other call; \<^verbatim>\<open>HID_INTR_STOP\<close> is invoked exactly by those closes after which no
  subscriber is open, which are the closes that take the bus from some subscriber open to
  no subscriber open and the closes made while no subscriber was open.
\<close>

theorem hid_start_stop_transitions:
  assumes "\<forall>x \<in> set xs. hid_target x \<in> child ` set (tlcs sc)"
  shows "\<forall>e \<in> set (hid_run sr pr xs sc).
     (case e of (x, before, after, calls) \<Rightarrow>
        (case x of
           Hid_start c \<Rightarrow>
             (calls = [HID_INTR_START] \<or> calls = []) \<and>
             ((calls = [HID_INTR_START]) = (\<not> any_open before \<and> any_open after))
         | Hid_stop c \<Rightarrow>
             (calls = [HID_INTR_STOP] \<or> calls = []) \<and>
             ((calls = [HID_INTR_STOP]) = (\<not> any_open after)) \<and>
             (any_open before \<longrightarrow>
                (calls = [HID_INTR_STOP]) = (any_open before \<and> \<not> any_open after))))"
  using assms
proof (induction xs arbitrary: sc)
  case Nil
  then show ?case by simp
next
  case (Cons x xs)
  obtain r sc' calls where step: "hid_call_step sr pr x sc = (r, sc', calls)"
    by (cases "hid_call_step sr pr x sc") auto
  have "map child (tlcs sc') = map child (tlcs sc)"
    using children_step [of sr pr x sc] by (simp add: step)
  then have same: "child ` set (tlcs sc') = child ` set (tlcs sc)"
    by (metis set_map)
  with Cons.prems have "\<forall>y \<in> set xs. hid_target y \<in> child ` set (tlcs sc')" by simp
  from Cons.IH [OF this]
  have rest: "\<forall>e \<in> set (hid_run sr pr xs sc').
     (case e of (x, before, after, calls) \<Rightarrow>
        (case x of
           Hid_start c \<Rightarrow>
             (calls = [HID_INTR_START] \<or> calls = []) \<and>
             ((calls = [HID_INTR_START]) = (\<not> any_open before \<and> any_open after))
         | Hid_stop c \<Rightarrow>
             (calls = [HID_INTR_STOP] \<or> calls = []) \<and>
             ((calls = [HID_INTR_STOP]) = (\<not> any_open after)) \<and>
             (any_open before \<longrightarrow>
                (calls = [HID_INTR_STOP]) = (any_open before \<and> \<not> any_open after))))" .
  have first: "(case x of
           Hid_start c \<Rightarrow>
             (calls = [HID_INTR_START] \<or> calls = []) \<and>
             ((calls = [HID_INTR_START]) = (\<not> any_open sc \<and> any_open sc'))
         | Hid_stop c \<Rightarrow>
             (calls = [HID_INTR_STOP] \<or> calls = []) \<and>
             ((calls = [HID_INTR_STOP]) = (\<not> any_open sc')) \<and>
             (any_open sc \<longrightarrow>
                (calls = [HID_INTR_STOP]) = (any_open sc \<and> \<not> any_open sc')))"
  proof (cases x)
    case (Hid_start c)
    with Cons.prems have "c \<in> child ` set (tlcs sc)" by simp
    from any_open_after_start [OF this] step Hid_start show ?thesis
      by (auto simp: hid_call_step_def hid_start_eq)
  next
    case (Hid_stop c)
    with step show ?thesis
      by (auto simp: hid_call_step_def hid_stop_eq)
  qed
  from first rest show ?case by (simp add: step)
qed


text \<open>
  A bus with two subscribers, both closed: the second opens, the first opens, the second
  closes, the first closes. Only the first open starts the engine and only the last close
  stops it.
\<close>

theorem hid_start_stop_transitions_witness:
  "map (\<lambda>e. snd (snd (snd e)))
     (hid_run 0 0 [Hid_start 1, Hid_start 0, Hid_stop 1, Hid_stop 0]
        \<lparr>tlcs = [new_tlc 0, new_tlc 1]\<rparr>)
   = [[HID_INTR_START], [], [], [HID_INTR_STOP]]"
proof -
  have h: "\<forall>x \<in> set [Hid_start 1, Hid_start 0, Hid_stop 1, Hid_stop 0].
             hid_target x \<in> child ` set (tlcs \<lparr>tlcs = [new_tlc 0, new_tlc 1]\<rparr>)"
    by (simp add: new_tlc_def)
  from hid_start_stop_transitions [OF h, of 0 0] show ?thesis
    by (simp add: hid_call_step_def hid_start_eq hid_stop_eq any_open_def new_tlc_def)
qed

text \<open>
  The claim as stated fails for a close on an idle bus: \<^verbatim>\<open>hid_stop\<close> of a closed
  subscriber while no subscriber is open invokes \<^verbatim>\<open>HID_INTR_STOP\<close>, although the bus
  makes no transition from some subscriber open to none.
\<close>

theorem hid_start_stop_transitions_counterexample:
  "\<not> any_open \<lparr>tlcs = [new_tlc 0]\<rparr> \<and>
   hid_stop 0 0 \<lparr>tlcs = [new_tlc 0]\<rparr> = (0, \<lparr>tlcs = [new_tlc 0]\<rparr>, [HID_INTR_STOP])"
  by (simp add: hid_stop_def any_open_def new_tlc_def)

section \<open>Dispatch of input reports\<close>

lemma hidbus_intr_loop_eq:
  "hidbus_intr_loop ts b n =
     (concat (map (delivery b n) (takeWhile has_handler (filter open ts))),
      \<not> list_all has_handler (filter open ts))"
  by (induction ts) (auto simp: delivery_def has_handler_def split: option.splits)

lemma hidbus_intr_loop_all:
  assumes "\<forall>t \<in> set ts. open t \<longrightarrow> intr t \<noteq> None"
  shows "hidbus_intr_loop ts b n = (concat (map (delivery b n) (filter open ts)), False)"
proof -
  from assms have all: "\<forall>t \<in> set (filter open ts). has_handler t"
    by (simp add: has_handler_def)
  then have tw: "takeWhile has_handler (filter open ts) = filter open ts"
    by (simp add: takeWhile_eq_all_conv)
  from all have la: "list_all has_handler (filter open ts)"
    by (simp add: list_all_iff)
  show ?thesis by (simp only: hidbus_intr_loop_eq tw la simp_thms)
qed

lemma delivery_receivers:
  assumes "\<forall>t \<in> set ts. has_handler t"
  shows "map (\<lambda>c. fst (snd c)) (concat (map (delivery b n) ts)) = map child ts"
    and "\<forall>c \<in> set (concat (map (delivery b n) ts)). snd (snd c) = (b, n)"
  using assms
  by (induction ts) (auto simp: delivery_def has_handler_def split: option.splits)

text \<open>
  Claim C3, as amended. In every bus state in which each open subscriber has a registered
  handler, and for every input report (buffer \<open>b\<close>, length \<open>n\<close>), the dispatch calls the
  handler of every subscriber whose open flag is set, in the order of the list, each with
  that buffer and that length, calls the handler of no subscriber whose flag is clear, and
  ends without a failed assertion: the devices that receive the report are exactly the
  open ones.
\<close>

theorem hidbus_intr_broadcast:
  assumes "\<forall>t \<in> set (tlcs sc). open t \<longrightarrow> intr t \<noteq> None"
  shows "hidbus_intr sc b n = (concat (map (delivery b n) (filter open (tlcs sc))), False) \<and>
         map (\<lambda>c. fst (snd c)) (fst (hidbus_intr sc b n)) = map child (filter open (tlcs sc)) \<and>
         (\<forall>c \<in> set (fst (hidbus_intr sc b n)). snd (snd c) = (b, n))"
proof -
  have r: "hidbus_intr sc b n = (concat (map (delivery b n) (filter open (tlcs sc))), False)"
    unfolding hidbus_intr_def by (rule hidbus_intr_loop_all [OF assms])
  from assms have h: "\<forall>t \<in> set (filter open (tlcs sc)). has_handler t"
    by (simp add: has_handler_def)
  from r delivery_receivers [OF h, of b n] show ?thesis by simp
qed

text \<open>
  Three subscribers with handlers 10, 11 and 12, the first and the last open: a report
  at address 4096 of 8 bytes goes to the first and the last, in this order.
\<close>

theorem hidbus_intr_broadcast_witness:
  "hidbus_intr
     \<lparr>tlcs = [\<lparr>child = 0, index = 0, usage = 0x00010002, open = True, intr = Some 10\<rparr>,
              \<lparr>child = 1, index = 1, usage = 0x00010006, open = False, intr = Some 11\<rparr>,
              \<lparr>child = 2, index = 2, usage = 0x000C0001, open = True, intr = Some 12\<rparr>]\<rparr>
     4096 8
   = ([(10, 0, 4096, 8), (12, 2, 4096, 8)], False)"
proof -
  let ?sc = "\<lparr>tlcs = [\<lparr>child = 0, index = 0, usage = 0x00010002, open = True, intr = Some 10\<rparr>,
              \<lparr>child = 1, index = 1, usage = 0x00010006, open = False, intr = Some 11\<rparr>,
              \<lparr>child = 2, index = 2, usage = 0x000C0001, open = True, intr = Some 12\<rparr>]\<rparr>"
  have h: "\<forall>t \<in> set (tlcs ?sc). open t \<longrightarrow> intr t \<noteq> None" by simp
  from hidbus_intr_broadcast [OF h, of 4096 8] show ?thesis
    by (simp add: delivery_def)
qed

text \<open>
  The claim as stated fails in a bus state where an open subscriber has no handler: the
  assertion of the dispatch fails at that subscriber, and the open subscriber after it,
  which has a handler, does not receive the report.
\<close>

theorem hidbus_intr_broadcast_counterexample:
  "hidbus_intr
     \<lparr>tlcs = [\<lparr>child = 0, index = 0, usage = 0x00010002, open = True, intr = None\<rparr>,
              \<lparr>child = 1, index = 1, usage = 0x00010006, open = True, intr = Some 11\<rparr>]\<rparr>
     4096 8
   = ([], True)"
  by (simp add: hidbus_intr_def)

section \<open>Open subscribers and their handlers\<close>













section \<open>Error recovery in the transfer callbacks\<close>

text \<open>
  Claim C6, as amended. When a transfer of the bridge completes with an error:
  the interrupt-write callback, for an error other than cancellation, clears the stall and
  arms the transfer again with the steps of its \<open>SETUP\<close> state, leaving the outcome of the
  exchange alone; the control-write and control-read callbacks do not retry: for every
  error they set the outcome \<open>EIO\<close> and end the exchange; and a cancelled transfer
  ends the exchange with outcome \<open>EIO\<close> in all three callbacks, without a new submission.
\<close>

theorem usbhid_error_recovery:
  "(ev_state ev = USB_ST_ERROR \<and> ev_error ev \<noteq> USB_ERR_CANCELLED \<longrightarrow>
      usbhid_intr_wr_callback max_len pm ev ctx =
        (ctx, [Usbd_xfer_set_stall,
               Usbd_copy_in 0 (buf ctx) (unat (len ctx)),
               Usbd_xfer_set_frame_len 0 (unat (len ctx)),
               Usbd_transfer_submit]) \<and>
      (unat (len ctx) \<le> max_len \<longrightarrow>
         snd (usbhid_intr_wr_callback max_len pm ev ctx) =
           Usbd_xfer_set_stall #
           snd (usbhid_intr_wr_callback max_len pm (ev\<lparr>ev_state := USB_ST_SETUP\<rparr>) ctx))) \<and>
   (ev_state ev = USB_ST_ERROR \<longrightarrow>
      usbhid_ctrl_wr_callback max_len pm ev ctx = (ctx\<lparr>error := EIO\<rparr>, tr_exit pm) \<and>
      usbhid_ctrl_rd_callback max_len pm ev ctx = (ctx\<lparr>error := EIO\<rparr>, tr_exit pm) \<and>
      Usbd_xfer_set_stall \<notin> set (tr_exit pm) \<and> Usbd_transfer_submit \<notin> set (tr_exit pm)) \<and>
   (ev_state ev = USB_ST_ERROR \<and> ev_error ev = USB_ERR_CANCELLED \<longrightarrow>
      usbhid_intr_wr_callback max_len pm ev ctx = (ctx\<lparr>error := EIO\<rparr>, tr_exit pm) \<and>
      error (fst (usbhid_ctrl_wr_callback max_len pm ev ctx)) = EIO \<and>
      error (fst (usbhid_ctrl_rd_callback max_len pm ev ctx)) = EIO)"
  by (simp add: usbhid_intr_wr_callback_def usbhid_ctrl_wr_callback_def
      usbhid_ctrl_rd_callback_def tr_exit_def Let_def)

text \<open>
  A stalled and a cancelled transfer of 8 bytes from address 4096, outside polling mode.
\<close>

theorem usbhid_error_recovery_witness:
  "usbhid_intr_wr_callback 64 False
      \<lparr>ev_state = USB_ST_ERROR, ev_error = USB_ERR_STALLED, ev_actlen = 0\<rparr>
      \<lparr>req = None, buf = 4096, len = 8, error = ETIMEDOUT, waiters = 0, influx = True\<rparr>
    = (\<lparr>req = None, buf = 4096, len = 8, error = ETIMEDOUT, waiters = 0, influx = True\<rparr>,
       [Usbd_xfer_set_stall, Usbd_copy_in 0 4096 8, Usbd_xfer_set_frame_len 0 8,
        Usbd_transfer_submit]) \<and>
   usbhid_ctrl_rd_callback 64 False
      \<lparr>ev_state = USB_ST_ERROR, ev_error = USB_ERR_STALLED, ev_actlen = 0\<rparr>
      \<lparr>req = None, buf = 4096, len = 8, error = ETIMEDOUT, waiters = 0, influx = True\<rparr>
    = (\<lparr>req = None, buf = 4096, len = 8, error = EIO, waiters = 0, influx = True\<rparr>, [Wakeup]) \<and>
   usbhid_intr_wr_callback 64 False
      \<lparr>ev_state = USB_ST_ERROR, ev_error = USB_ERR_CANCELLED, ev_actlen = 0\<rparr>
      \<lparr>req = None, buf = 4096, len = 8, error = ETIMEDOUT, waiters = 0, influx = True\<rparr>
    = (\<lparr>req = None, buf = 4096, len = 8, error = EIO, waiters = 0, influx = True\<rparr>, [Wakeup])"
  using
    usbhid_error_recovery [of "\<lparr>ev_state = USB_ST_ERROR, ev_error = USB_ERR_STALLED, ev_actlen = 0\<rparr>"
      64 False "\<lparr>req = None, buf = 4096, len = 8, error = ETIMEDOUT, waiters = 0, influx = True\<rparr>"]
    usbhid_error_recovery [of "\<lparr>ev_state = USB_ST_ERROR, ev_error = USB_ERR_CANCELLED, ev_actlen = 0\<rparr>"
      64 False "\<lparr>req = None, buf = 4096, len = 8, error = ETIMEDOUT, waiters = 0, influx = True\<rparr>"]
  by (simp add: tr_exit_def)

text \<open>
  The claim as stated fails for the control transfers. A control read that completes with
  a stall (an error that is not a cancellation) is not retried: the callback sets the
  outcome \<open>EIO\<close> and wakes the caller, with no stall-clear and no new submission, and the
  exchange returns \<open>EIO\<close>.
\<close>

theorem usbhid_error_recovery_counterexample:
  "usbhid_ctrl_rd_callback 64 False
      \<lparr>ev_state = USB_ST_ERROR, ev_error = USB_ERR_STALLED, ev_actlen = 0\<rparr>
      \<lparr>req = None, buf = 4096, len = 8, error = ETIMEDOUT, waiters = 0, influx = True\<rparr>
    = (\<lparr>req = None, buf = 4096, len = 8, error = EIO, waiters = 0, influx = True\<rparr>, [Wakeup]) \<and>
   USB_ERR_STALLED \<noteq> USB_ERR_CANCELLED \<and>
   map_option fst (usbhid_sync_xfer
      \<lparr>polling = False, xfer_max_len = xfer_max_len_64,
        on_start = [\<lparr>ev_state = USB_ST_SETUP, ev_error = USB_ERR_NORMAL_COMPLETION, ev_actlen = 0\<rparr>],
        on_poll = no_events,
        on_sleep = [\<lparr>ev_state = USB_ST_ERROR, ev_error = USB_ERR_STALLED, ev_actlen = 0\<rparr>],
        on_stop = []\<rparr>
      \<lparr>sc_iface_no = 0,
        sc_tr = \<lparr>req = None, buf = 0, len = 0, error = 0, waiters = 0, influx = False\<rparr>\<rparr>
      USBHID_CTRL_DT_RD None 4096 8) = Some EIO"
  by (simp add: usbhid_ctrl_rd_callback_def tr_exit_def usbhid_sync_xfer_def usbhid_callback_def
      xfer_max_len_64_def ETIMEDOUT_def EIO_def Let_def)

section \<open>Polling mode leaves the transfer context unchanged\<close>

lemma usbhid_poll_loop_unfold:
  "0 < t \<Longrightarrow>
   usbhid_poll_loop cb evs t k ctx =
     (if error ctx = ETIMEDOUT then
        (case run_callbacks cb (evs k) ctx of
           (ctx1, a1) \<Rightarrow>
             (case usbhid_poll_loop cb evs (t - 1) (Suc k) ctx1 of (ctx2, a2) \<Rightarrow> (ctx2, a1 @ a2)))
      else (ctx, []))"
  by (cases t) simp_all

text \<open>
  Claim C8. Every call of the synchronous exchange in polling mode returns, and after it
  the shared transfer context is what it was before the call, field by field (request,
  buffer, length, outcome, waiter count, in-flux flag), whatever the transfer, its
  arguments, the callbacks that ran and the outcome of the exchange.
\<close>

theorem usbhid_sync_xfer_polling_restores:
  "polling st \<longrightarrow>
     (\<exists>err sc' acts.
        usbhid_sync_xfer st sc idx rq b n = Some (err, sc', acts) \<and>
        sc_tr sc' = sc_tr sc \<and>
        req (sc_tr sc') = req (sc_tr sc) \<and>
        buf (sc_tr sc') = buf (sc_tr sc) \<and>
        len (sc_tr sc') = len (sc_tr sc) \<and>
        error (sc_tr sc') = error (sc_tr sc) \<and>
        waiters (sc_tr sc') = waiters (sc_tr sc) \<and>
        influx (sc_tr sc') = influx (sc_tr sc) \<and>
        sc' = sc)"
  by (simp add: usbhid_sync_xfer_def Let_def case_prod_beta)

text \<open>
  In polling mode, with another exchange in flux (outcome 5 and a waiter recorded in the
  context), a control read of 8 bytes completes at the first poll: the call returns 0 and
  the context is as before.
\<close>

theorem usbhid_sync_xfer_polling_restores_witness:
  "map_option (\<lambda>r. (fst r, fst (snd r)))
     (usbhid_sync_xfer
        \<lparr>polling = True, xfer_max_len = xfer_max_len_64,
          on_start = [\<lparr>ev_state = USB_ST_SETUP, ev_error = USB_ERR_NORMAL_COMPLETION, ev_actlen = 0\<rparr>],
          on_poll = done_at_first_poll, on_sleep = [], on_stop = []\<rparr>
        \<lparr>sc_iface_no = 0,
          sc_tr = \<lparr>req = None, buf = 12288, len = 4, error = 5, waiters = 1, influx = True\<rparr>\<rparr>
        USBHID_CTRL_DT_RD None 4096 8)
   = Some (0, \<lparr>sc_iface_no = 0,
               sc_tr = \<lparr>req = None, buf = 12288, len = 4, error = 5, waiters = 1, influx = True\<rparr>\<rparr>)"
proof -
  let ?st = "\<lparr>polling = True, xfer_max_len = xfer_max_len_64,
          on_start = [\<lparr>ev_state = USB_ST_SETUP, ev_error = USB_ERR_NORMAL_COMPLETION, ev_actlen = 0\<rparr>],
          on_poll = done_at_first_poll, on_sleep = [], on_stop = []\<rparr>"
  let ?sc = "\<lparr>sc_iface_no = 0,
          sc_tr = \<lparr>req = None, buf = 12288, len = 4, error = 5, waiters = 1, influx = True\<rparr>\<rparr>"
  have p: "polling ?st" by simp
  have e: "map_option fst (usbhid_sync_xfer ?st ?sc USBHID_CTRL_DT_RD None 4096 8) = Some 0"
    by (simp add: usbhid_sync_xfer_def Let_def usbhid_callback_def usbhid_ctrl_rd_callback_def
        xfer_max_len_64_def done_at_first_poll_def tr_exit_def usbhid_poll_loop_unfold
        USB_DEFAULT_TIMEOUT_def ETIMEDOUT_def)
  from usbhid_sync_xfer_polling_restores [of ?st ?sc USBHID_CTRL_DT_RD None 4096 8] p
  obtain err sc' acts where
    r: "usbhid_sync_xfer ?st ?sc USBHID_CTRL_DT_RD None 4096 8 = Some (err, sc', acts)"
    and s: "sc' = ?sc"
    by blast
  from e r have "err = 0" by simp
  with r s show ?thesis by simp
qed

section \<open>The actual length reported by usbhid_get_report\<close>

lemma ctrl_rd_callback_actlen:
  "usbhid_ctrl_rd_callback m pm (e\<lparr>ev_actlen := a\<rparr>) ctx = usbhid_ctrl_rd_callback m pm e ctx"
  by (simp add: usbhid_ctrl_rd_callback_def)

lemma run_callbacks_ctrl_rd_actlen:
  "run_callbacks (usbhid_ctrl_rd_callback m pm) (map (\<lambda>e. e\<lparr>ev_actlen := a\<rparr>) es) ctx
     = run_callbacks (usbhid_ctrl_rd_callback m pm) es ctx"
  by (induction es arbitrary: ctx) (simp_all add: ctrl_rd_callback_actlen)

lemma poll_loop_ctrl_rd_actlen:
  "usbhid_poll_loop (usbhid_ctrl_rd_callback m pm) (\<lambda>k. map (\<lambda>e. e\<lparr>ev_actlen := a\<rparr>) (evs k)) t k ctx
     = usbhid_poll_loop (usbhid_ctrl_rd_callback m pm) evs t k ctx"
  by (induction t arbitrary: k ctx) (simp_all add: run_callbacks_ctrl_rd_actlen)

lemma usbhid_callback_ctrl_rd:
  "usbhid_callback st USBHID_CTRL_DT_RD =
     usbhid_ctrl_rd_callback (xfer_max_len st USBHID_CTRL_DT_RD) (polling st)"
  by (rule ext, rule ext) (simp add: usbhid_callback_def)

lemma sync_xfer_ctrl_rd_actlen:
  "usbhid_sync_xfer (with_actlen a st) sc USBHID_CTRL_DT_RD rq b n
     = usbhid_sync_xfer st sc USBHID_CTRL_DT_RD rq b n"
  by (simp add: usbhid_sync_xfer_def usbhid_callback_ctrl_rd with_actlen_def
      run_callbacks_ctrl_rd_actlen poll_loop_ctrl_rd_actlen)

lemma get_report_result:
  "usbhid_get_report st sc b maxlen actlen type rid = Some (err, a', sc', acts) \<Longrightarrow>
     a' = (if err = 0 \<and> actlen \<noteq> None then Some maxlen else actlen)"
  by (auto simp: usbhid_get_report_def Let_def split: option.splits)

text \<open>
  Claim C10. When \<^verbatim>\<open>usbhid_get_report\<close> returns 0 and was given a variable for the actual
  length, the variable holds \<open>maxlen\<close> afterwards; when it returns an error the variable
  keeps its value, and a \<^verbatim>\<open>NULL\<close> pointer stays \<^verbatim>\<open>NULL\<close>. The number of bytes that
  the device returned in the control transfer has no influence on the result of the call.
\<close>

theorem usbhid_get_report_actlen:
  "(usbhid_get_report st sc b maxlen (Some v) type rid = Some (err, a', sc', acts) \<longrightarrow>
      (err = 0 \<longrightarrow> a' = Some maxlen) \<and> (err \<noteq> 0 \<longrightarrow> a' = Some v)) \<and>
   (usbhid_get_report st sc b maxlen None type rid = Some (err, a', sc', acts) \<longrightarrow> a' = None) \<and>
   usbhid_get_report (with_actlen a st) sc b maxlen actlen type rid
     = usbhid_get_report st sc b maxlen actlen type rid \<and>
   (polling st \<or> \<not> influx (sc_tr sc) \<longrightarrow>
      (\<exists>r. usbhid_get_report st sc b maxlen actlen type rid = Some r))"
proof (intro conjI impI)
  assume r: "usbhid_get_report st sc b maxlen (Some v) type rid = Some (err, a', sc', acts)"
  { assume "err = 0" with get_report_result [OF r] show "a' = Some maxlen" by simp }
  { assume "err \<noteq> 0" with get_report_result [OF r] show "a' = Some v" by simp }
next
  assume "usbhid_get_report st sc b maxlen None type rid = Some (err, a', sc', acts)"
  from get_report_result [OF this] show "a' = None" by simp
next
  show "usbhid_get_report (with_actlen a st) sc b maxlen actlen type rid
     = usbhid_get_report st sc b maxlen actlen type rid"
    by (simp add: usbhid_get_report_def sync_xfer_ctrl_rd_actlen)
next
  assume "polling st \<or> \<not> influx (sc_tr sc)"
  then show "\<exists>r. usbhid_get_report st sc b maxlen actlen type rid = Some r"
    by (auto simp: usbhid_get_report_def usbhid_sync_xfer_def Let_def case_prod_beta)
qed

text \<open>
  A feature report (type 3, ID 1) of at most 8 bytes is requested outside polling mode and
  the device returns 3 bytes: the call returns 0 and reports 8 as the actual length. When
  the transfer stalls instead, the call returns \<open>EIO\<close> and the variable keeps its 0.
\<close>

theorem usbhid_get_report_actlen_witness:
  "map_option (\<lambda>r. (fst r, fst (snd r)))
     (usbhid_get_report
        \<lparr>polling = False, xfer_max_len = xfer_max_len_64,
          on_start = [\<lparr>ev_state = USB_ST_SETUP, ev_error = USB_ERR_NORMAL_COMPLETION, ev_actlen = 0\<rparr>],
          on_poll = no_events,
          on_sleep = [\<lparr>ev_state = USB_ST_TRANSFERRED, ev_error = USB_ERR_NORMAL_COMPLETION, ev_actlen = 3\<rparr>],
          on_stop = []\<rparr>
        \<lparr>sc_iface_no = 0,
          sc_tr = \<lparr>req = None, buf = 0, len = 0, error = 0, waiters = 0, influx = False\<rparr>\<rparr>
        4096 8 (Some 0) 3 1)
   = Some (0, Some 8) \<and>
   map_option (\<lambda>r. (fst r, fst (snd r)))
     (usbhid_get_report
        \<lparr>polling = False, xfer_max_len = xfer_max_len_64,
          on_start = [\<lparr>ev_state = USB_ST_SETUP, ev_error = USB_ERR_NORMAL_COMPLETION, ev_actlen = 0\<rparr>],
          on_poll = no_events,
          on_sleep = [\<lparr>ev_state = USB_ST_ERROR, ev_error = USB_ERR_STALLED, ev_actlen = 0\<rparr>],
          on_stop = []\<rparr>
        \<lparr>sc_iface_no = 0,
          sc_tr = \<lparr>req = None, buf = 0, len = 0, error = 0, waiters = 0, influx = False\<rparr>\<rparr>
        4096 8 (Some 0) 3 1)
   = Some (EIO, Some 0)"
proof -
  let ?ok = "\<lparr>polling = False, xfer_max_len = xfer_max_len_64,
          on_start = [\<lparr>ev_state = USB_ST_SETUP, ev_error = USB_ERR_NORMAL_COMPLETION, ev_actlen = 0\<rparr>],
          on_poll = no_events,
          on_sleep = [\<lparr>ev_state = USB_ST_TRANSFERRED, ev_error = USB_ERR_NORMAL_COMPLETION, ev_actlen = 3\<rparr>],
          on_stop = []\<rparr>"
  let ?bad = "\<lparr>polling = False, xfer_max_len = xfer_max_len_64,
          on_start = [\<lparr>ev_state = USB_ST_SETUP, ev_error = USB_ERR_NORMAL_COMPLETION, ev_actlen = 0\<rparr>],
          on_poll = no_events,
          on_sleep = [\<lparr>ev_state = USB_ST_ERROR, ev_error = USB_ERR_STALLED, ev_actlen = 0\<rparr>],
          on_stop = []\<rparr>"
  let ?sc = "\<lparr>sc_iface_no = 0,
          sc_tr = \<lparr>req = None, buf = 0, len = 0, error = 0, waiters = 0, influx = False\<rparr>\<rparr>"
  have e1: "map_option fst (usbhid_get_report ?ok ?sc 4096 8 (Some 0) 3 1) = Some 0"
    by (simp add: usbhid_get_report_def usbhid_sync_xfer_def Let_def usbhid_callback_def
        usbhid_ctrl_rd_callback_def xfer_max_len_64_def tr_exit_def ETIMEDOUT_def)
  have e2: "map_option fst (usbhid_get_report ?bad ?sc 4096 8 (Some 0) 3 1) = Some EIO"
    by (simp add: usbhid_get_report_def usbhid_sync_xfer_def Let_def usbhid_callback_def
        usbhid_ctrl_rd_callback_def xfer_max_len_64_def tr_exit_def ETIMEDOUT_def)
  from e1 obtain a1 s1 c1 where
    r1: "usbhid_get_report ?ok ?sc 4096 8 (Some 0) 3 1 = Some (0, a1, s1, c1)"
    by (cases "usbhid_get_report ?ok ?sc 4096 8 (Some 0) 3 1") auto
  from e2 obtain a2 s2 c2 where
    r2: "usbhid_get_report ?bad ?sc 4096 8 (Some 0) 3 1 = Some (EIO, a2, s2, c2)"
    by (cases "usbhid_get_report ?bad ?sc 4096 8 (Some 0) 3 1") auto
  from usbhid_get_report_actlen [of ?ok ?sc 4096 8 0 3 1 0 a1 s1 c1] r1
  have "a1 = Some 8" by simp
  moreover from usbhid_get_report_actlen [of ?bad ?sc 4096 8 0 3 1 EIO a2 s2 c2] r2
  have "a2 = Some 0" by (simp add: EIO_def)
  ultimately show ?thesis using r1 r2 by simp
qed

section \<open>Switching between sampling and interrupt mode\<close>

text \<open>
  When the interrupt can be allocated and set up, a switch leaves exactly one event
  source: a negative rate written in poll mode stops the callout and installs the
  interrupt handler, and a positive rate written in interrupt mode removes the handler
  and schedules the callout at that rate.
\<close>

lemma sampling_rate_switch_with_irq:
  assumes "req_err rq = 0" and "newptr rq = Some v"
    and "alloc_resource env \<noteq> None" and "setup_intr_ret env = 0"
  shows "0 \<le> sampling_rate sc \<and> v < 0 \<longrightarrow>
           \<not> timer_armed (snd (iichid_sysctl_sampling_rate_handler env rq sc)) \<and>
           intr_installed (snd (iichid_sysctl_sampling_rate_handler env rq sc)) \<and>
           active_sources (snd (iichid_sysctl_sampling_rate_handler env rq sc)) = 1"
    and "sampling_rate sc < 0 \<and> 0 < v \<and> (intr_installed sc \<longrightarrow> irq_cookie sc \<noteq> None) \<longrightarrow>
           periodic_callout (snd (iichid_sysctl_sampling_rate_handler env rq sc)) = Some (hz env div v) \<and>
           \<not> intr_installed (snd (iichid_sysctl_sampling_rate_handler env rq sc)) \<and>
           active_sources (snd (iichid_sysctl_sampling_rate_handler env rq sc)) = 1"
  using assms
  by (auto simp: iichid_sysctl_sampling_rate_handler_def sysctl_handle_int_def Let_def
      iichid_teardown_callout_def iichid_setup_interrupt_def iichid_teardown_interrupt_def
      iichid_setup_callout_def iichid_reset_callout_def timer_armed_def active_sources_def)

text \<open>
  Claim C7 does not hold of the code. \<^verbatim>\<open>iichid_sysctl_sampling_rate_handler\<close> ignores
  the result of \<^verbatim>\<open>iichid_setup_interrupt\<close>. The engine polls at rate 10 with its
  callout scheduled, and \<open>-1\<close> is written to the control: the callout is stopped, and
  when \<^verbatim>\<open>bus_setup_intr\<close> fails, or when there is no interrupt resource to allocate, no
  handler is installed, the handler returns 0 and the engine is left with no event source.
\<close>

theorem sampling_rate_switch_without_irq:
  "active_sources
     \<lparr>sampling_rate = 10, callout_setup = True, periodic_callout = Some 100, irq_rid = 0,
      irq_res = None, irq_cookie = None, intr_installed = False\<rparr> = 1 \<and>
   iichid_sysctl_sampling_rate_handler
     \<lparr>alloc_resource = Some 1, setup_intr_ret = 6, setup_intr_cookie = 0, hz = 1000\<rparr>
     \<lparr>req_err = 0, newptr = Some (- 1)\<rparr>
     \<lparr>sampling_rate = 10, callout_setup = True, periodic_callout = Some 100, irq_rid = 0,
      irq_res = None, irq_cookie = None, intr_installed = False\<rparr>
   = (0, \<lparr>sampling_rate = - 1, callout_setup = False, periodic_callout = None, irq_rid = 0,
          irq_res = Some 1, irq_cookie = None, intr_installed = False\<rparr>) \<and>
   iichid_sysctl_sampling_rate_handler
     \<lparr>alloc_resource = None, setup_intr_ret = 0, setup_intr_cookie = 0, hz = 1000\<rparr>
     \<lparr>req_err = 0, newptr = Some (- 1)\<rparr>
     \<lparr>sampling_rate = 10, callout_setup = True, periodic_callout = Some 100, irq_rid = 0,
      irq_res = None, irq_cookie = None, intr_installed = False\<rparr>
   = (0, \<lparr>sampling_rate = - 1, callout_setup = False, periodic_callout = None, irq_rid = 0,
          irq_res = None, irq_cookie = None, intr_installed = False\<rparr>) \<and>
   active_sources
     \<lparr>sampling_rate = - 1, callout_setup = False, periodic_callout = None, irq_rid = 0,
      irq_res = Some 1, irq_cookie = None, intr_installed = False\<rparr> = 0 \<and>
   active_sources
     \<lparr>sampling_rate = - 1, callout_setup = False, periodic_callout = None, irq_rid = 0,
      irq_res = None, irq_cookie = None, intr_installed = False\<rparr> = 0"
  by (simp add: iichid_sysctl_sampling_rate_handler_def sysctl_handle_int_def Let_def
      iichid_teardown_callout_def iichid_setup_interrupt_def iichid_reset_callout_def
      timer_armed_def active_sources_def)

text \<open>After the failed switch the engine has no event source.\<close>

theorem sampling_rate_switch_without_irq_witness:
  "active_sources (snd (iichid_sysctl_sampling_rate_handler
     \<lparr>alloc_resource = Some 1, setup_intr_ret = 6, setup_intr_cookie = 0, hz = 1000\<rparr>
     \<lparr>req_err = 0, newptr = Some (- 1)\<rparr>
     \<lparr>sampling_rate = 10, callout_setup = True, periodic_callout = Some 100, irq_rid = 0,
      irq_res = None, irq_cookie = None, intr_installed = False\<rparr>)) = 0"
  using sampling_rate_switch_without_irq by simp

end
